theory Spec2Isabelle
  imports Main "HOL-Library.Sublist"
begin

section \<open>The Blender wrapper: result dictionaries and the world outside\<close>

text \<open>
  The development embeds \<^verbatim>\<open>blender_wrapper.py\<close>: the function
  \<^verbatim>\<open>run_blender_script\<close> (the Dispatcher of the specification) and the function
  \<^verbatim>\<open>main\<close> after its call of \<^verbatim>\<open>parser.parse_args()\<close> (the Command Router).

  Both functions build Python dictionaries whose values are booleans, strings, or whatever
  \<^verbatim>\<open>json.loads\<close> returned. The type of decoded JSON values is the parameter \<open>'j\<close>:
  the wrapper never looks inside such a value. A dictionary is an association list in
  insertion order, read with \<open>map_of\<close>.
\<close>

datatype 'j pyval = PyBool bool | PyStr string | PyJson 'j

type_synonym 'j pydict = "(string \<times> 'j pyval) list"

text \<open>
  What the operating system does with a command line handed to \<^verbatim>\<open>subprocess.run\<close>:
  the child runs for some seconds and exits with a return code and its two captured
  streams as text, or it never exits, or the call raises some other exception with a
  message (the launch fails, the binary vanished after the probe, permission is denied).
\<close>

datatype child =
    Exits (duration: nat) (returncode: int) (child_stdout: string) (child_stderr: string)
  | Hangs
  | LaunchFails string

text \<open>
  The three ways a call of the standard library's \<^verbatim>\<open>json.loads\<close> ends: it returns the
  decoded value, it raises \<^verbatim>\<open>JSONDecodeError\<close>, or it raises another exception, kept
  with its text \<^verbatim>\<open>str(e)\<close> (\<^verbatim>\<open>RecursionError\<close> on deeply nested text, for one).
\<close>

datatype 'j decoding = Decoded 'j | JSONDecodeError | OtherException string

text \<open>
  Everything the wrapper reads from outside: which paths exist, the process environment,
  the text of \<^verbatim>\<open>str(Path(__file__).parent / script_name)\<close>, the behaviour of a
  launched command, and \<^verbatim>\<open>json.loads\<close>. The wrapper never reads \<open>environ\<close>; the field
  is there so that a theorem can say so.
\<close>

record 'j world =
  path_exists :: "string \<Rightarrow> bool"
  environ :: "string \<rightharpoonup> string"
  script_path :: "string \<Rightarrow> string"
  launch :: "string list \<Rightarrow> child"
  json_loads :: "string \<Rightarrow> 'j decoding"

text \<open>The three ways \<^verbatim>\<open>subprocess.run(cmd, capture_output=True, text=True, timeout=t)\<close> ends.\<close>

datatype completion =
    Completed int string string
  | TimeoutExpired
  | Raised string

definition subprocess_run :: "'j world \<Rightarrow> string list \<Rightarrow> nat \<Rightarrow> completion" where
  "subprocess_run w cmd timeout =
     (case launch w cmd of
        Exits d rc out err \<Rightarrow> if timeout < d then TimeoutExpired else Completed rc out err
      | Hangs \<Rightarrow> TimeoutExpired
      | LaunchFails msg \<Rightarrow> Raised msg)"

section \<open>The Dispatcher: \<^verbatim>\<open>run_blender_script\<close>\<close>

definition blender_paths :: "string list" where
  "blender_paths =
     [''/usr/bin/blender'',
      ''/usr/local/bin/blender'',
      ''/Applications/Blender.app/Contents/MacOS/Blender'',
      ''C:'' @ [CHR 0x5C] @ ''Program Files'' @ [CHR 0x5C] @ ''Blender Foundation''
        @ [CHR 0x5C] @ ''Blender'' @ [CHR 0x5C] @ ''blender.exe'']"

text \<open>The probing loop: the first path that exists, else \<open>None\<close>.\<close>

fun find_blender :: "(string \<Rightarrow> bool) \<Rightarrow> string list \<Rightarrow> string option" where
  "find_blender ex [] = None"
| "find_blender ex (path # paths) = (if ex path then Some path else find_blender ex paths)"

text \<open>Python's \<^verbatim>\<open>not x\<close> for \<open>x\<close> a string or \<^verbatim>\<open>None\<close>: the empty string is falsy too.\<close>

fun not_str :: "string option \<Rightarrow> bool" where
  "not_str None = True"
| "not_str (Some s) = (s = [])"

definition not_found_msg :: string where
  "not_found_msg =
     ''Blender executable not found. Please install Blender or set BLENDER_PATH environment variable.''"

definition timed_out_msg :: string where
  "timed_out_msg = ''Blender operation timed out (5 minutes)''"

text \<open>
  The result dictionary, paired with the command lines handed to \<^verbatim>\<open>subprocess.run\<close>
  during the call (the children spawned). The call of \<^verbatim>\<open>json.loads\<close> sits inside the
  outer \<^verbatim>\<open>try\<close>: the inner handler takes \<^verbatim>\<open>JSONDecodeError\<close> only, and any other
  exception it raises goes to \<^verbatim>\<open>except Exception\<close>, as one raised by
  \<^verbatim>\<open>subprocess.run\<close> does.
\<close>

definition run_blender_script ::
  "'j world \<Rightarrow> string \<Rightarrow> string list \<Rightarrow> 'j pydict \<times> string list list" where
  "run_blender_script w script_name args =
     (let blender_exe = find_blender (path_exists w) blender_paths in
      if not_str blender_exe then
        ([(''success'', PyBool False), (''error'', PyStr not_found_msg)], [])
      else
        let cmd = [the blender_exe, ''--background'', ''--python'', script_path w script_name, ''--'']
                    @ args
        in (case subprocess_run w cmd 300 of
              Completed rc out err \<Rightarrow>
                (case json_loads w out of
                   Decoded output_data \<Rightarrow>
                     [(''success'', PyBool (rc = 0)), (''data'', PyJson output_data),
                      (''stderr'', PyStr err)]
                 | JSONDecodeError \<Rightarrow>
                     [(''success'', PyBool (rc = 0)), (''stdout'', PyStr out),
                      (''stderr'', PyStr err)]
                 | OtherException e \<Rightarrow>
                     [(''success'', PyBool False), (''error'', PyStr e)])
            | TimeoutExpired \<Rightarrow>
                [(''success'', PyBool False), (''error'', PyStr timed_out_msg)]
            | Raised e \<Rightarrow>
                [(''success'', PyBool False), (''error'', PyStr e)],
            [cmd]))"

section \<open>The Command Router: \<^verbatim>\<open>main\<close>\<close>

text \<open>The namespace \<^verbatim>\<open>parse_args\<close> returns: an option not given is \<open>None\<close>, or its default.\<close>

record namespace =
  command :: string
  input :: "string option"
  "output" :: "string option"
  formats :: "string option"
  target_polys :: "int option"
  platform :: "string option"
  quality :: "string option"
  resolution :: int
  samples :: int
  lod_levels :: int

text \<open>
  One run of the process after argument parsing: the result objects printed on standard
  output (each \<^verbatim>\<open>print(json.dumps(d))\<close> adds the dictionary \<open>d\<close>), the exit code, the
  calls of \<^verbatim>\<open>run_blender_script\<close> made, and the children spawned.
\<close>

record 'j run =
  printed :: "'j pydict list"
  exit_code :: int
  dispatched :: "(string \<times> string list) list"
  spawned :: "string list list"

text \<open>
  Python's truth value of \<^verbatim>\<open>result.get('success')\<close>. Every dictionary \<open>main\<close> builds
  holds a boolean under that key (lemma \<open>main_success_bool\<close> below); the other equations
  make the function total, and the wrapper has no way to test a decoded value.
\<close>

fun truthy :: "'j pyval option \<Rightarrow> bool" where
  "truthy None = False"
| "truthy (Some (PyBool b)) = b"
| "truthy (Some (PyStr s)) = (s \<noteq> [])"
| "truthy (Some (PyJson v)) = True"

text \<open>Python's \<^verbatim>\<open>x or d\<close> for \<open>x\<close> a string or \<^verbatim>\<open>None\<close>.\<close>

definition str_or :: "string option \<Rightarrow> string \<Rightarrow> string" where
  "str_or x d = (if not_str x then d else the x)"

text \<open>A validation failure: print the error object, then \<^verbatim>\<open>sys.exit(1)\<close>.\<close>

definition reject :: "string \<Rightarrow> 'j run" where
  "reject msg =
     \<lparr>printed = [[(''success'', PyBool False), (''error'', PyStr msg)]],
      exit_code = 1, dispatched = [], spawned = []\<rparr>"

text \<open>The last two statements of \<open>main\<close>: print the result, exit by its \<open>success\<close>.\<close>

definition finish ::
  "'j pydict \<Rightarrow> (string \<times> string list) list \<Rightarrow> string list list \<Rightarrow> 'j run" where
  "finish result calls cmds =
     \<lparr>printed = [result],
      exit_code = (if truthy (map_of result ''success'') then 0 else 1),
      dispatched = calls, spawned = cmds\<rparr>"

text \<open>A branch that delegates to the Dispatcher with the script and its argument list.\<close>

definition dispatch :: "'j world \<Rightarrow> string \<Rightarrow> string list \<Rightarrow> 'j run" where
  "dispatch w script_name args =
     (let (result, cmds) = run_blender_script w script_name args
      in finish result [(script_name, args)] cmds)"

definition main :: "'j world \<Rightarrow> namespace \<Rightarrow> 'j run" where
  "main w args =
     (if command args = ''import_export'' then
        if not_str (input args) \<or> not_str (output args) then
          reject ''Missing --input or --output''
        else
          dispatch w ''automation.py''
            [''import_export'', the (input args), the (output args),
             str_or (formats args) ''obj,fbx'']
      else if command args = ''cleanup'' then
        if not_str (input args) \<or> not_str (output args) then
          reject ''Missing --input or --output''
        else
          dispatch w ''automation.py'' [''cleanup'', the (input args), the (output args)]
      else if command args = ''stats'' then
        if not_str (input args) then
          reject ''Missing --input''
        else
          dispatch w ''automation.py'' [''stats'', the (input args)]
      else if command args = ''optimize'' then
        if not_str (input args) \<or> not_str (output args) \<or> not_str (platform args) then
          reject ''Missing --input, --output, or --platform''
        else
          finish [(''success'', PyBool True),
                  (''message'', PyStr ''Optimization script to be implemented'')] [] []
      else if command args = ''generate_lods'' then
        if not_str (input args) \<or> not_str (output args) then
          reject ''Missing --input or --output''
        else
          finish [(''success'', PyBool True),
                  (''message'', PyStr ''LOD generation script to be implemented'')] [] []
      else if command args = ''bake_textures'' then
        if not_str (input args) \<or> not_str (output args) then
          reject ''Missing --input or --output''
        else
          finish [(''success'', PyBool True),
                  (''message'', PyStr ''Texture baking script to be implemented'')] [] []
      else
        finish [(''success'', PyBool False),
                (''error'', PyStr (''Unknown command: '' @ command args))] [] [])"

section \<open>Concrete runs\<close>

text \<open>
  For concrete runs, a decoder for the fragment of JSON that the examples use stands in
  for \<^verbatim>\<open>json.loads\<close>: objects, arrays, strings without escapes, integers and the three
  literals, with white space between tokens. As the library's scanner does, it enters
  every nested array or object through a recursive call and gives up with
  \<^verbatim>\<open>RecursionError\<close> when the nesting is deeper than the interpreter allows; the stand-in
  allows \<open>recursion_limit\<close> levels, the interpreter's default limit (the real scanner
  stops a few levels earlier, by the frames already in use).

  The first argument of the three parsing functions is fuel, which makes the recursion
  structural; the second is the number of levels still allowed.
\<close>

datatype json =
    JNull | JBool bool | JInt int | JStr string
  | JArr "json list" | JObj "(string \<times> json) list"

text \<open>A scan ends with a value and the rest of the text, with a syntax error, or too deep.\<close>

datatype 'a scan = Ok 'a string | Invalid | TooDeep string

definition recursion_limit :: nat where
  "recursion_limit = 1000"

definition too_deep_array :: string where
  "too_deep_array =
     ''maximum recursion depth exceeded while decoding a JSON array from a unicode string''"

definition too_deep_object :: string where
  "too_deep_object =
     ''maximum recursion depth exceeded while decoding a JSON object from a unicode string''"

definition is_ws :: "char \<Rightarrow> bool" where
  "is_ws c = (c = CHR '' '' \<or> c = CHR 0x09 \<or> c = CHR 0x0A \<or> c = CHR 0x0D)"

definition skip_ws :: "string \<Rightarrow> string" where
  "skip_ws cs = dropWhile is_ws cs"

definition is_digit :: "char \<Rightarrow> bool" where
  "is_digit c = (48 \<le> (of_char c :: nat) \<and> (of_char c :: nat) \<le> 57)"

definition digits_val :: "string \<Rightarrow> nat" where
  "digits_val ds = foldl (\<lambda>n c. 10 * n + (of_char c - 48)) 0 ds"

text \<open>The text after an opening quote, up to the closing one.\<close>

definition scan_string :: "string \<Rightarrow> string scan" where
  "scan_string cs =
     (let s = takeWhile (\<lambda>c. c \<noteq> CHR 0x22) cs; rest = dropWhile (\<lambda>c. c \<noteq> CHR 0x22) cs
      in if rest = [] \<or> list_ex (\<lambda>c. c = CHR 0x5C \<or> (of_char c :: nat) < 32) s then Invalid
         else Ok s (tl rest))"

definition scan_int :: "string \<Rightarrow> json scan" where
  "scan_int cs =
     (let neg = (take 1 cs = ''-'');
          r = (if neg then drop 1 cs else cs);
          ds = takeWhile is_digit r;
          rest = dropWhile is_digit r
      in if ds = [] \<or> (1 < length ds \<and> take 1 ds = ''0'') then Invalid
         else if take 1 rest = ''.'' \<or> take 1 rest = ''e'' \<or> take 1 rest = ''E'' then Invalid
         else Ok (JInt (if neg then - int (digits_val ds) else int (digits_val ds))) rest)"

fun parse_value :: "nat \<Rightarrow> nat \<Rightarrow> string \<Rightarrow> json scan"
  and parse_elements :: "nat \<Rightarrow> nat \<Rightarrow> string \<Rightarrow> json list scan"
  and parse_members :: "nat \<Rightarrow> nat \<Rightarrow> string \<Rightarrow> (string \<times> json) list scan"
where
  "parse_value 0 depth cs = Invalid"
| "parse_value (Suc n) depth cs =
     (case cs of
        [] \<Rightarrow> Invalid
      | c # r \<Rightarrow>
          if c = CHR 0x22 then map_scan JStr (scan_string r)
          else if c = CHR ''['' then
            (case depth of
               0 \<Rightarrow> TooDeep too_deep_array
             | Suc d \<Rightarrow>
                 if take 1 (skip_ws r) = '']'' then Ok (JArr []) (drop 1 (skip_ws r))
                 else map_scan JArr (parse_elements n d (skip_ws r)))
          else if c = CHR ''{'' then
            (case depth of
               0 \<Rightarrow> TooDeep too_deep_object
             | Suc d \<Rightarrow>
                 if take 1 (skip_ws r) = ''}'' then Ok (JObj []) (drop 1 (skip_ws r))
                 else map_scan JObj (parse_members n d (skip_ws r)))
          else if take 4 cs = ''null'' then Ok JNull (drop 4 cs)
          else if take 4 cs = ''true'' then Ok (JBool True) (drop 4 cs)
          else if take 5 cs = ''false'' then Ok (JBool False) (drop 5 cs)
          else scan_int cs)"
| "parse_elements 0 depth cs = Invalid"
| "parse_elements (Suc n) depth cs =
     (case parse_value n depth cs of
        Invalid \<Rightarrow> Invalid
      | TooDeep msg \<Rightarrow> TooDeep msg
      | Ok v r \<Rightarrow>
          if take 1 (skip_ws r) = '','' then
            map_scan (\<lambda>vs. v # vs) (parse_elements n depth (skip_ws (drop 1 (skip_ws r))))
          else if take 1 (skip_ws r) = '']'' then Ok [v] (drop 1 (skip_ws r))
          else Invalid)"
| "parse_members 0 depth cs = Invalid"
| "parse_members (Suc n) depth cs =
     (if take 1 cs \<noteq> [CHR 0x22] then Invalid
      else
        (case scan_string (drop 1 cs) of
           Invalid \<Rightarrow> Invalid
         | TooDeep msg \<Rightarrow> TooDeep msg
         | Ok k r1 \<Rightarrow>
             if take 1 (skip_ws r1) \<noteq> '':'' then Invalid
             else
               (case parse_value n depth (skip_ws (drop 1 (skip_ws r1))) of
                  Invalid \<Rightarrow> Invalid
                | TooDeep msg \<Rightarrow> TooDeep msg
                | Ok v r2 \<Rightarrow>
                    if take 1 (skip_ws r2) = '','' then
                      map_scan (\<lambda>kvs. (k, v) # kvs)
                        (parse_members n depth (skip_ws (drop 1 (skip_ws r2))))
                    else if take 1 (skip_ws r2) = ''}'' then Ok [(k, v)] (drop 1 (skip_ws r2))
                    else Invalid)))"

definition loads_fragment :: "string \<Rightarrow> json decoding" where
  "loads_fragment s =
     (case parse_value (2 * length s + 2) recursion_limit (skip_ws s) of
        Invalid \<Rightarrow> JSONDecodeError
      | TooDeep msg \<Rightarrow> OtherException msg
      | Ok v r \<Rightarrow> if skip_ws r = [] then Decoded v else JSONDecodeError)"

text \<open>
  A machine on which exactly the paths of \<open>ex\<close> exist, every launched command behaves as
  \<open>ch\<close>, the environment is \<open>env\<close>, and the wrapper sits in \<^verbatim>\<open>/opt/wrapper\<close>.
\<close>

definition machine :: "(string \<Rightarrow> bool) \<Rightarrow> (string \<rightharpoonup> string) \<Rightarrow> child \<Rightarrow> json world" where
  "machine ex env ch =
     \<lparr>path_exists = ex, environ = env, script_path = (\<lambda>name. ''/opt/wrapper/'' @ name),
      launch = (\<lambda>cmd. ch), json_loads = loads_fragment\<rparr>"

text \<open>The namespace when only the command is given on the command line.\<close>

definition bare_args :: "string \<Rightarrow> namespace" where
  "bare_args c =
     \<lparr>command = c, input = None, output = None, formats = None, target_polys = None,
      platform = None, quality = None, resolution = 2048, samples = 64, lod_levels = 5\<rparr>"

text \<open>The text \<^verbatim>\<open>{"mesh_count": 2, "total_vertices": 10}\<close>.\<close>

definition mesh_stats_text :: string where
  "mesh_stats_text =
     ''{'' @ [CHR 0x22] @ ''mesh_count'' @ [CHR 0x22] @ '': 2, '' @
     [CHR 0x22] @ ''total_vertices'' @ [CHR 0x22] @ '': 10}''"


section \<open>The Dispatcher when no Blender is installed\<close>


lemma find_blender_some:
  "find_blender ex ps = Some p \<Longrightarrow> p \<in> set ps \<and> ex p"
  by (induction ps) (auto split: if_splits)

lemma blender_paths_nonempty: "p \<in> set blender_paths \<Longrightarrow> p \<noteq> []"
  by (auto simp: blender_paths_def)

lemma found_truthy:
  assumes "find_blender ex blender_paths = Some exe"
  shows "\<not> not_str (find_blender ex blender_paths)"
  using find_blender_some [OF assms] blender_paths_nonempty [of exe] assms by simp

lemma run_found:
  assumes "find_blender (path_exists w) blender_paths = Some exe"
  shows "run_blender_script w script_name args =
    (let cmd = [exe, ''--background'', ''--python'', script_path w script_name, ''--''] @ args
     in (case subprocess_run w cmd 300 of
              Completed rc out err \<Rightarrow>
                (case json_loads w out of
                   Decoded output_data \<Rightarrow>
                     [(''success'', PyBool (rc = 0)), (''data'', PyJson output_data),
                      (''stderr'', PyStr err)]
                 | JSONDecodeError \<Rightarrow>
                     [(''success'', PyBool (rc = 0)), (''stdout'', PyStr out),
                      (''stderr'', PyStr err)]
                 | OtherException e \<Rightarrow>
                     [(''success'', PyBool False), (''error'', PyStr e)])
            | TimeoutExpired \<Rightarrow>
                [(''success'', PyBool False), (''error'', PyStr timed_out_msg)]
            | Raised e \<Rightarrow>
                [(''success'', PyBool False), (''error'', PyStr e)],
            [cmd]))"
  using found_truthy [OF assms] assms by (simp add: run_blender_script_def Let_def)




section \<open>The Dispatcher when the child completes\<close>

text \<open>
  Claim C4. When a Blender is found, the child launched with the built command line exits
  within the 300 seconds, and its captured standard output decodes as a JSON value \<open>v\<close>,
  the result has \<open>success\<close> equal to (return code = 0), \<open>data\<close> equal to \<open>v\<close> and
  the captured standard error under \<open>stderr\<close>; that one child was spawned.
\<close>

theorem C4_json_stdout:
  assumes "find_blender (path_exists w) blender_paths = Some exe"
    and "launch w ([exe, ''--background'', ''--python'', script_path w script_name, ''--'']
            @ args) = Exits d rc out err"
    and "d \<le> 300"
    and "json_loads w out = Decoded v"
  shows "run_blender_script w script_name args =
           ([(''success'', PyBool (rc = 0)), (''data'', PyJson v), (''stderr'', PyStr err)],
            [[exe, ''--background'', ''--python'', script_path w script_name, ''--''] @ args])"
  using assms(2-4) by (simp add: run_found [OF assms(1)] subprocess_run_def)

lemma mesh_stats_decoded:
  "loads_fragment mesh_stats_text
     = Decoded (JObj [(''mesh_count'', JInt 2), (''total_vertices'', JInt 10)])"
  by code_simp

lemma usr_bin_found:
  "find_blender (\<lambda>p. p = ''/usr/bin/blender'') blender_paths = Some ''/usr/bin/blender''"
  by (simp add: blender_paths_def)

text \<open>
  Exit code 0 with the standard output \<^verbatim>\<open>{"mesh_count": 2, "total_vertices": 10}\<close>:
  \<open>success\<close> is true and \<open>data\<close> is the decoded object.
\<close>

theorem C4_json_stdout_witness:
  "run_blender_script
      (machine (\<lambda>p. p = ''/usr/bin/blender'') Map.empty (Exits 2 0 mesh_stats_text ''''))
      ''automation.py'' [''stats'', ''model.obj'']
   = ([(''success'', PyBool True),
       (''data'', PyJson (JObj [(''mesh_count'', JInt 2), (''total_vertices'', JInt 10)])),
       (''stderr'', PyStr '''')],
      [[''/usr/bin/blender'', ''--background'', ''--python'', ''/opt/wrapper/automation.py'',
        ''--'', ''stats'', ''model.obj'']])"
  using C4_json_stdout [of "machine (\<lambda>p. p = ''/usr/bin/blender'') Map.empty
        (Exits 2 0 mesh_stats_text '''')" "''/usr/bin/blender''" "''automation.py''"
        "[''stats'', ''model.obj'']" 2 0 mesh_stats_text "''''"
        "JObj [(''mesh_count'', JInt 2), (''total_vertices'', JInt 10)]"]
    usr_bin_found mesh_stats_decoded
  by (simp add: machine_def)








section \<open>The Dispatcher when the child exceeds the timeout\<close>

text \<open>
  Claim C7. When a Blender is found and the child never exits, or exits only after more
  than the 300 seconds of the timeout, the result is \<open>success = False\<close> with the error
  "Blender operation timed out (5 minutes)"; it has no \<open>stdout\<close>, \<open>stderr\<close> or
  \<open>data\<close> key, whatever the child had written.
\<close>

theorem C7_timeout:
  assumes "find_blender (path_exists w) blender_paths = Some exe"
    and "launch w ([exe, ''--background'', ''--python'', script_path w script_name, ''--'']
            @ args) = Hangs
         \<or> launch w ([exe, ''--background'', ''--python'', script_path w script_name, ''--'']
            @ args) = Exits d rc out err \<and> 300 < d"
  shows "run_blender_script w script_name args =
           ([(''success'', PyBool False), (''error'', PyStr timed_out_msg)],
            [[exe, ''--background'', ''--python'', script_path w script_name, ''--''] @ args])
         \<and> timed_out_msg = ''Blender operation timed out (5 minutes)''
         \<and> sublist ''timed out'' timed_out_msg
         \<and> map_of (fst (run_blender_script w script_name args)) ''stdout'' = None
         \<and> map_of (fst (run_blender_script w script_name args)) ''stderr'' = None
         \<and> map_of (fst (run_blender_script w script_name args)) ''data'' = None"
proof -
  let ?cmd = "[exe, ''--background'', ''--python'', script_path w script_name, ''--''] @ args"
  from assms(2) have "subprocess_run w ?cmd 300 = TimeoutExpired"
    by (auto simp: subprocess_run_def)
  then have run: "run_blender_script w script_name args =
      ([(''success'', PyBool False), (''error'', PyStr timed_out_msg)], [?cmd])"
    by (simp add: run_found [OF assms(1)])
  have "sublist ''timed out'' timed_out_msg"
    unfolding timed_out_msg_def by code_simp
  with run show ?thesis
    by (simp add: timed_out_msg_def)
qed

text \<open>
  A child that would exit after 301 seconds, having written to both streams, and a child
  that never exits.
\<close>

theorem C7_timeout_witness:
  "launch (machine (\<lambda>p. p = ''/usr/bin/blender'') Map.empty (Exits 301 0 ''half a line'' ''warning''))
      [''/usr/bin/blender'', ''--background'', ''--python'', ''/opt/wrapper/automation.py'',
        ''--'', ''stats'', ''model.obj'']
     = Exits 301 0 ''half a line'' ''warning''
   \<and> run_blender_script
      (machine (\<lambda>p. p = ''/usr/bin/blender'') Map.empty (Exits 301 0 ''half a line'' ''warning''))
      ''automation.py'' [''stats'', ''model.obj'']
   = ([(''success'', PyBool False), (''error'', PyStr ''Blender operation timed out (5 minutes)'')],
      [[''/usr/bin/blender'', ''--background'', ''--python'', ''/opt/wrapper/automation.py'',
        ''--'', ''stats'', ''model.obj'']])
   \<and> run_blender_script (machine (\<lambda>p. p = ''/usr/bin/blender'') Map.empty Hangs)
      ''automation.py'' [''stats'', ''model.obj'']
   = ([(''success'', PyBool False), (''error'', PyStr ''Blender operation timed out (5 minutes)'')],
      [[''/usr/bin/blender'', ''--background'', ''--python'', ''/opt/wrapper/automation.py'',
        ''--'', ''stats'', ''model.obj'']])"
  using C7_timeout [of "machine (\<lambda>p. p = ''/usr/bin/blender'') Map.empty
        (Exits 301 0 ''half a line'' ''warning'')" "''/usr/bin/blender''" "''automation.py''"
        "[''stats'', ''model.obj'']" 301 0 "''half a line''" "''warning''"]
     C7_timeout [of "machine (\<lambda>p. p = ''/usr/bin/blender'') Map.empty Hangs"
        "''/usr/bin/blender''" "''automation.py''" "[''stats'', ''model.obj'']"]
    usr_bin_found
  by (simp add: machine_def)

section \<open>The Dispatcher and the environment\<close>

text \<open>The result of \<^verbatim>\<open>run_blender_script\<close> does not depend on the environment.\<close>

lemma run_ignores_environ:
  "run_blender_script (w\<lparr>environ := env\<rparr>) script_name args = run_blender_script w script_name args"
  by (simp add: run_blender_script_def subprocess_run_def Let_def
      cong: if_cong completion.case_cong child.case_cong decoding.case_cong)

text \<open>
  Claim C2 says that the path named by the environment variable is probed as an extra
  candidate. The error text of \<^verbatim>\<open>run_blender_script\<close> itself tells the user to set
  \<^verbatim>\<open>BLENDER_PATH\<close>, but the function never reads the environment: on a machine where
  \<^verbatim>\<open>BLENDER_PATH\<close> is set to \<^verbatim>\<open>/opt/blender/blender\<close>, that file exists and none of
  the four fixed candidates does, the call returns the not-found error and spawns nothing.
\<close>

theorem C2_override_ignored:
  "environ (machine (\<lambda>p. p = ''/opt/blender/blender'')
       (Map.empty(''BLENDER_PATH'' \<mapsto> ''/opt/blender/blender'')) (Exits 2 0 mesh_stats_text ''''))
     ''BLENDER_PATH'' = Some ''/opt/blender/blender''
   \<and> path_exists (machine (\<lambda>p. p = ''/opt/blender/blender'')
       (Map.empty(''BLENDER_PATH'' \<mapsto> ''/opt/blender/blender'')) (Exits 2 0 mesh_stats_text ''''))
     ''/opt/blender/blender''
   \<and> run_blender_script (machine (\<lambda>p. p = ''/opt/blender/blender'')
       (Map.empty(''BLENDER_PATH'' \<mapsto> ''/opt/blender/blender'')) (Exits 2 0 mesh_stats_text ''''))
       ''automation.py'' [''stats'', ''model.obj'']
     = ([(''success'', PyBool False),
         (''error'', PyStr ''Blender executable not found. Please install Blender or set BLENDER_PATH environment variable.'')],
        [])"
  by (simp add: machine_def run_blender_script_def blender_paths_def not_found_msg_def)

section \<open>The shape of every result\<close>

text \<open>
  The Dispatcher returns one of three shapes of dictionary: an error, a decoded value with
  the standard error, or the raw standard output with the standard error.
\<close>

lemma run_shape:
  "(\<exists>e. fst (run_blender_script w script_name args)
        = [(''success'', PyBool False), (''error'', PyStr e)])
   \<or> (\<exists>b v err. fst (run_blender_script w script_name args)
        = [(''success'', PyBool b), (''data'', PyJson v), (''stderr'', PyStr err)])
   \<or> (\<exists>b out err. fst (run_blender_script w script_name args)
        = [(''success'', PyBool b), (''stdout'', PyStr out), (''stderr'', PyStr err)])"
  by (simp add: run_blender_script_def Let_def split: completion.split decoding.split)

lemma run_success_bool:
  "\<exists>b. map_of (fst (run_blender_script w script_name args)) ''success'' = Some (PyBool b)"
proof -
  from run_shape [of w script_name args]
  consider e where "fst (run_blender_script w script_name args)
        = [(''success'', PyBool False), (''error'', PyStr e)]"
    | b v err where "fst (run_blender_script w script_name args)
        = [(''success'', PyBool b), (''data'', PyJson v), (''stderr'', PyStr err)]"
    | b out err where "fst (run_blender_script w script_name args)
        = [(''success'', PyBool b), (''stdout'', PyStr out), (''stderr'', PyStr err)]"
    by blast
  then show ?thesis by cases auto
qed




section \<open>The Router, branch by branch\<close>

lemma dispatch_sel:
  "printed (dispatch w s a) = [fst (run_blender_script w s a)]"
  "spawned (dispatch w s a) = snd (run_blender_script w s a)"
  "dispatched (dispatch w s a) = [(s, a)]"
  "exit_code (dispatch w s a)
     = (if map_of (fst (run_blender_script w s a)) ''success'' = Some (PyBool True) then 0 else 1)"
  using run_success_bool [of w s a]
  by (auto simp: dispatch_def finish_def split: prod.split)


lemma main_import_export:
  "command ns = ''import_export'' \<Longrightarrow> main w ns =
     (if not_str (input ns) \<or> not_str (output ns) then reject ''Missing --input or --output''
      else dispatch w ''automation.py''
             [''import_export'', the (input ns), the (output ns),
              str_or (formats ns) ''obj,fbx''])"
  by (simp add: main_def)

lemma main_cleanup:
  "command ns = ''cleanup'' \<Longrightarrow> main w ns =
     (if not_str (input ns) \<or> not_str (output ns) then reject ''Missing --input or --output''
      else dispatch w ''automation.py'' [''cleanup'', the (input ns), the (output ns)])"
  by (simp add: main_def)

lemma main_stats:
  "command ns = ''stats'' \<Longrightarrow> main w ns =
     (if not_str (input ns) then reject ''Missing --input''
      else dispatch w ''automation.py'' [''stats'', the (input ns)])"
  by (simp add: main_def)

lemma main_optimize:
  "command ns = ''optimize'' \<Longrightarrow> main w ns =
     (if not_str (input ns) \<or> not_str (output ns) \<or> not_str (platform ns)
      then reject ''Missing --input, --output, or --platform''
      else finish [(''success'', PyBool True),
                   (''message'', PyStr ''Optimization script to be implemented'')] [] [])"
  by (simp add: main_def)

lemma main_generate_lods:
  "command ns = ''generate_lods'' \<Longrightarrow> main w ns =
     (if not_str (input ns) \<or> not_str (output ns) then reject ''Missing --input or --output''
      else finish [(''success'', PyBool True),
                   (''message'', PyStr ''LOD generation script to be implemented'')] [] [])"
  by (simp add: main_def)

lemma main_bake_textures:
  "command ns = ''bake_textures'' \<Longrightarrow> main w ns =
     (if not_str (input ns) \<or> not_str (output ns) then reject ''Missing --input or --output''
      else finish [(''success'', PyBool True),
                   (''message'', PyStr ''Texture baking script to be implemented'')] [] [])"
  by (simp add: main_def)

lemma main_unknown:
  "command ns \<noteq> ''import_export'' \<Longrightarrow> command ns \<noteq> ''cleanup'' \<Longrightarrow> command ns \<noteq> ''stats''
   \<Longrightarrow> command ns \<noteq> ''optimize'' \<Longrightarrow> command ns \<noteq> ''generate_lods''
   \<Longrightarrow> command ns \<noteq> ''bake_textures''
   \<Longrightarrow> main w ns = finish [(''success'', PyBool False),
          (''error'', PyStr (''Unknown command: '' @ command ns))] [] []"
  by (simp add: main_def)

text \<open>Every run of \<open>main\<close> ends in one of four ways.\<close>

lemma main_cases:
  obtains (rejected) msg where "main w ns = reject msg"
  | (stub) msg where
      "main w ns = finish [(''success'', PyBool True), (''message'', PyStr msg)] [] []"
  | (unknown) "main w ns = finish [(''success'', PyBool False),
          (''error'', PyStr (''Unknown command: '' @ command ns))] [] []"
  | (delegated) a where "main w ns = dispatch w ''automation.py'' a"
proof -
  consider "command ns = ''import_export''" | "command ns = ''cleanup''"
    | "command ns = ''stats''" | "command ns = ''optimize''"
    | "command ns = ''generate_lods''" | "command ns = ''bake_textures''"
    | "command ns \<noteq> ''import_export''" "command ns \<noteq> ''cleanup''" "command ns \<noteq> ''stats''"
      "command ns \<noteq> ''optimize''" "command ns \<noteq> ''generate_lods''"
      "command ns \<noteq> ''bake_textures''"
    by blast
  then show thesis
  proof cases
    case 1
    from main_import_export [OF 1, of w] show thesis
      by (cases "not_str (input ns) \<or> not_str (output ns)") (simp_all add: rejected delegated)
  next
    case 2
    from main_cleanup [OF 2, of w] show thesis
      by (cases "not_str (input ns) \<or> not_str (output ns)") (simp_all add: rejected delegated)
  next
    case 3
    from main_stats [OF 3, of w] show thesis
      by (cases "not_str (input ns)") (simp_all add: rejected delegated)
  next
    case 4
    from main_optimize [OF 4, of w] show thesis
      by (cases "not_str (input ns) \<or> not_str (output ns) \<or> not_str (platform ns)")
        (simp_all add: rejected stub)
  next
    case 5
    from main_generate_lods [OF 5, of w] show thesis
      by (cases "not_str (input ns) \<or> not_str (output ns)") (simp_all add: rejected stub)
  next
    case 6
    from main_bake_textures [OF 6, of w] show thesis
      by (cases "not_str (input ns) \<or> not_str (output ns)") (simp_all add: rejected stub)
  next
    case 7
    then show thesis by (rule unknown [OF main_unknown])
  qed
qed

text \<open>Whatever \<open>main\<close> prints holds a boolean under \<open>success\<close>.\<close>

lemma main_success_bool:
  assumes "r \<in> set (printed (main w ns))"
  shows "\<exists>b. map_of r ''success'' = Some (PyBool b)"
proof (cases w ns rule: main_cases)
  case (rejected msg)
  with assms show ?thesis by (auto simp: reject_def)
next
  case (stub msg)
  with assms show ?thesis by (auto simp: finish_def)
next
  case unknown
  with assms show ?thesis by (auto simp: finish_def)
next
  case (delegated a)
  with assms show ?thesis by (simp add: dispatch_sel run_success_bool)
qed








section \<open>The Router: stubs and validation\<close>

text \<open>What the fixed messages mention.\<close>

lemma mentions_to_be_implemented:
  "sublist ''to be implemented'' ''Optimization script to be implemented''"
  "sublist ''to be implemented'' ''LOD generation script to be implemented''"
  "sublist ''to be implemented'' ''Texture baking script to be implemented''"
  by code_simp+

lemma mentions_options:
  "sublist ''--input'' ''Missing --input or --output''"
  "sublist ''--output'' ''Missing --input or --output''"
  "sublist ''--input'' ''Missing --input''"
  "sublist ''--input'' ''Missing --input, --output, or --platform''"
  "sublist ''--output'' ''Missing --input, --output, or --platform''"
  "sublist ''--platform'' ''Missing --input, --output, or --platform''"
  by code_simp+

text \<open>
  Claim C1 as stated fails. With all three required options given, \<^verbatim>\<open>optimize\<close>
  prints the message "Optimization script to be implemented", which does not contain
  the command name \<^verbatim>\<open>optimize\<close>. And an option supplied as the empty string counts as
  missing: \<^verbatim>\<open>generate_lods --input "" --output lods\<close> is rejected.
\<close>

theorem C1_counterexample:
  "printed (main (machine (\<lambda>p. False) Map.empty Hangs)
      ((bare_args ''optimize'')
         \<lparr>input := Some ''in.obj'', output := Some ''out.obj'', platform := Some ''imvu''\<rparr>))
     = [[(''success'', PyBool True),
         (''message'', PyStr ''Optimization script to be implemented'')]]
   \<and> \<not> sublist ''optimize'' ''Optimization script to be implemented''
   \<and> printed (main (machine (\<lambda>p. False) Map.empty Hangs)
      ((bare_args ''generate_lods'')\<lparr>input := Some '''', output := Some ''lods''\<rparr>))
     = [[(''success'', PyBool False), (''error'', PyStr ''Missing --input or --output'')]]"
proof (intro conjI)
  show "printed (main (machine (\<lambda>p. False) Map.empty Hangs)
      ((bare_args ''optimize'')
         \<lparr>input := Some ''in.obj'', output := Some ''out.obj'', platform := Some ''imvu''\<rparr>))
     = [[(''success'', PyBool True),
         (''message'', PyStr ''Optimization script to be implemented'')]]"
    by (simp add: main_optimize bare_args_def finish_def)
  show "\<not> sublist ''optimize'' ''Optimization script to be implemented''"
    by code_simp
  show "printed (main (machine (\<lambda>p. False) Map.empty Hangs)
      ((bare_args ''generate_lods'')\<lparr>input := Some '''', output := Some ''lods''\<rparr>))
     = [[(''success'', PyBool False), (''error'', PyStr ''Missing --input or --output'')]]"
    by (simp add: main_generate_lods bare_args_def reject_def)
qed

text \<open>
  Claim C1, amended. For each of the three stub commands, when all of its required options
  are supplied with a non-empty value (\<^verbatim>\<open>--input\<close> and \<^verbatim>\<open>--output\<close>, and
  \<^verbatim>\<open>--platform\<close> too for \<^verbatim>\<open>optimize\<close>), \<open>main\<close> prints one result with
  \<open>success = True\<close> and the command's fixed message ("Optimization script to be
  implemented", "LOD generation script to be implemented", "Texture baking script to be
  implemented"), each of which contains "to be implemented"; it exits with code 0,
  never calls \<^verbatim>\<open>run_blender_script\<close> and spawns no child.
\<close>

theorem C1_stub_commands:
  assumes "\<not> not_str (input ns)" and "\<not> not_str (output ns)"
  shows "(command ns = ''optimize'' \<and> \<not> not_str (platform ns) \<longrightarrow>
           main w ns =
             \<lparr>printed = [[(''success'', PyBool True),
                          (''message'', PyStr ''Optimization script to be implemented'')]],
              exit_code = 0, dispatched = [], spawned = []\<rparr>)
       \<and> (command ns = ''generate_lods'' \<longrightarrow>
           main w ns =
             \<lparr>printed = [[(''success'', PyBool True),
                          (''message'', PyStr ''LOD generation script to be implemented'')]],
              exit_code = 0, dispatched = [], spawned = []\<rparr>)
       \<and> (command ns = ''bake_textures'' \<longrightarrow>
           main w ns =
             \<lparr>printed = [[(''success'', PyBool True),
                          (''message'', PyStr ''Texture baking script to be implemented'')]],
              exit_code = 0, dispatched = [], spawned = []\<rparr>)
       \<and> sublist ''to be implemented'' ''Optimization script to be implemented''
       \<and> sublist ''to be implemented'' ''LOD generation script to be implemented''
       \<and> sublist ''to be implemented'' ''Texture baking script to be implemented''"
  using assms
  by (simp add: main_optimize main_generate_lods main_bake_textures finish_def
      mentions_to_be_implemented)

text \<open>One run of each stub command with its required options.\<close>

theorem C1_stub_commands_witness:
  "main (machine (\<lambda>p. p = ''/usr/bin/blender'') Map.empty Hangs)
      ((bare_args ''optimize'')\<lparr>input := Some ''in.obj'', output := Some ''out.obj'',
         platform := Some ''vrchat_quest''\<rparr>)
     = \<lparr>printed = [[(''success'', PyBool True),
                     (''message'', PyStr ''Optimization script to be implemented'')]],
        exit_code = 0, dispatched = [], spawned = []\<rparr>
   \<and> main (machine (\<lambda>p. p = ''/usr/bin/blender'') Map.empty Hangs)
      ((bare_args ''generate_lods'')\<lparr>input := Some ''in.obj'', output := Some ''lods''\<rparr>)
     = \<lparr>printed = [[(''success'', PyBool True),
                     (''message'', PyStr ''LOD generation script to be implemented'')]],
        exit_code = 0, dispatched = [], spawned = []\<rparr>
   \<and> main (machine (\<lambda>p. p = ''/usr/bin/blender'') Map.empty Hangs)
      ((bare_args ''bake_textures'')\<lparr>input := Some ''in.obj'', output := Some ''maps''\<rparr>)
     = \<lparr>printed = [[(''success'', PyBool True),
                     (''message'', PyStr ''Texture baking script to be implemented'')]],
        exit_code = 0, dispatched = [], spawned = []\<rparr>"
  using C1_stub_commands [of "(bare_args ''optimize'')\<lparr>input := Some ''in.obj'',
      output := Some ''out.obj'', platform := Some ''vrchat_quest''\<rparr>"
      "machine (\<lambda>p. p = ''/usr/bin/blender'') Map.empty Hangs"]
    C1_stub_commands [of "(bare_args ''generate_lods'')\<lparr>input := Some ''in.obj'',
      output := Some ''lods''\<rparr>" "machine (\<lambda>p. p = ''/usr/bin/blender'') Map.empty Hangs"]
    C1_stub_commands [of "(bare_args ''bake_textures'')\<lparr>input := Some ''in.obj'',
      output := Some ''maps''\<rparr>" "machine (\<lambda>p. p = ''/usr/bin/blender'') Map.empty Hangs"]
  by (simp add: bare_args_def)

text \<open>
  Claim C3. For \<^verbatim>\<open>import_export\<close> and \<^verbatim>\<open>cleanup\<close> (which require input and
  output) and for \<^verbatim>\<open>stats\<close> (which requires input): if a required option is absent
  (or empty), \<open>main\<close> prints one result with \<open>success = False\<close> and an error that
  starts with "Missing --" and mentions the missing option's name; it exits with code 1,
  never calls \<^verbatim>\<open>run_blender_script\<close> and spawns no child.
\<close>

theorem C3_missing_required:
  "((command ns = ''import_export'' \<or> command ns = ''cleanup'')
      \<and> (not_str (input ns) \<or> not_str (output ns)) \<longrightarrow>
        main w ns =
          \<lparr>printed = [[(''success'', PyBool False),
                       (''error'', PyStr ''Missing --input or --output'')]],
           exit_code = 1, dispatched = [], spawned = []\<rparr>)
   \<and> (command ns = ''stats'' \<and> not_str (input ns) \<longrightarrow>
        main w ns =
          \<lparr>printed = [[(''success'', PyBool False), (''error'', PyStr ''Missing --input'')]],
           exit_code = 1, dispatched = [], spawned = []\<rparr>)
   \<and> sublist ''--input'' ''Missing --input or --output''
   \<and> sublist ''--output'' ''Missing --input or --output''
   \<and> sublist ''--input'' ''Missing --input''"
  by (auto simp: main_import_export main_cleanup main_stats reject_def mentions_options)

text \<open>
  The runs \<^verbatim>\<open>import_export --input in.obj\<close>, \<^verbatim>\<open>cleanup --output out.obj\<close> and
  \<^verbatim>\<open>stats\<close>, each without one required option.
\<close>

theorem C3_missing_required_witness:
  "not_str (output ((bare_args ''import_export'')\<lparr>input := Some ''in.obj''\<rparr>))
   \<and> main (machine (\<lambda>p. p = ''/usr/bin/blender'') Map.empty (Exits 2 0 ''done'' ''''))
        ((bare_args ''import_export'')\<lparr>input := Some ''in.obj''\<rparr>)
     = \<lparr>printed = [[(''success'', PyBool False),
                     (''error'', PyStr ''Missing --input or --output'')]],
        exit_code = 1, dispatched = [], spawned = []\<rparr>
   \<and> not_str (input ((bare_args ''cleanup'')\<lparr>output := Some ''out.obj''\<rparr>))
   \<and> main (machine (\<lambda>p. p = ''/usr/bin/blender'') Map.empty (Exits 2 0 ''done'' ''''))
        ((bare_args ''cleanup'')\<lparr>output := Some ''out.obj''\<rparr>)
     = \<lparr>printed = [[(''success'', PyBool False),
                     (''error'', PyStr ''Missing --input or --output'')]],
        exit_code = 1, dispatched = [], spawned = []\<rparr>
   \<and> not_str (input (bare_args ''stats''))
   \<and> main (machine (\<lambda>p. p = ''/usr/bin/blender'') Map.empty (Exits 2 0 ''done'' ''''))
        (bare_args ''stats'')
     = \<lparr>printed = [[(''success'', PyBool False), (''error'', PyStr ''Missing --input'')]],
        exit_code = 1, dispatched = [], spawned = []\<rparr>"
  using C3_missing_required [of "(bare_args ''import_export'')\<lparr>input := Some ''in.obj''\<rparr>"
      "machine (\<lambda>p. p = ''/usr/bin/blender'') Map.empty (Exits 2 0 ''done'' '''')"]
    C3_missing_required [of "(bare_args ''cleanup'')\<lparr>output := Some ''out.obj''\<rparr>"
      "machine (\<lambda>p. p = ''/usr/bin/blender'') Map.empty (Exits 2 0 ''done'' '''')"]
    C3_missing_required [of "bare_args ''stats''"
      "machine (\<lambda>p. p = ''/usr/bin/blender'') Map.empty (Exits 2 0 ''done'' '''')"]
  by (simp add: bare_args_def)

text \<open>
  Claim C10. The stub commands validate before they answer: \<^verbatim>\<open>optimize\<close> with any of
  input, output or platform missing, and \<^verbatim>\<open>generate_lods\<close> or \<^verbatim>\<open>bake_textures\<close>
  with input or output missing, print exactly one result, with \<open>success = False\<close> and
  an error naming the missing options, and exit with code 1; no stub success result is
  printed.
\<close>

theorem C10_stub_validation:
  "(command ns = ''optimize''
      \<and> (not_str (input ns) \<or> not_str (output ns) \<or> not_str (platform ns)) \<longrightarrow>
        main w ns =
          \<lparr>printed = [[(''success'', PyBool False),
                       (''error'', PyStr ''Missing --input, --output, or --platform'')]],
           exit_code = 1, dispatched = [], spawned = []\<rparr>)
   \<and> ((command ns = ''generate_lods'' \<or> command ns = ''bake_textures'')
      \<and> (not_str (input ns) \<or> not_str (output ns)) \<longrightarrow>
        main w ns =
          \<lparr>printed = [[(''success'', PyBool False),
                       (''error'', PyStr ''Missing --input or --output'')]],
           exit_code = 1, dispatched = [], spawned = []\<rparr>)
   \<and> sublist ''--input'' ''Missing --input, --output, or --platform''
   \<and> sublist ''--output'' ''Missing --input, --output, or --platform''
   \<and> sublist ''--platform'' ''Missing --input, --output, or --platform''
   \<and> sublist ''--input'' ''Missing --input or --output''
   \<and> sublist ''--output'' ''Missing --input or --output''"
  by (auto simp: main_optimize main_generate_lods main_bake_textures reject_def mentions_options)

text \<open>
  The runs \<^verbatim>\<open>optimize --input in.obj --output out.obj\<close> (no platform),
  \<^verbatim>\<open>generate_lods --input in.obj\<close> and \<^verbatim>\<open>bake_textures --output maps\<close>.
\<close>

theorem C10_stub_validation_witness:
  "not_str (platform ((bare_args ''optimize'')\<lparr>input := Some ''in.obj'', output := Some ''out.obj''\<rparr>))
   \<and> main (machine (\<lambda>p. p = ''/usr/bin/blender'') Map.empty (Exits 2 0 ''done'' ''''))
        ((bare_args ''optimize'')\<lparr>input := Some ''in.obj'', output := Some ''out.obj''\<rparr>)
     = \<lparr>printed = [[(''success'', PyBool False),
                     (''error'', PyStr ''Missing --input, --output, or --platform'')]],
        exit_code = 1, dispatched = [], spawned = []\<rparr>
   \<and> not_str (output ((bare_args ''generate_lods'')\<lparr>input := Some ''in.obj''\<rparr>))
   \<and> main (machine (\<lambda>p. p = ''/usr/bin/blender'') Map.empty (Exits 2 0 ''done'' ''''))
        ((bare_args ''generate_lods'')\<lparr>input := Some ''in.obj''\<rparr>)
     = \<lparr>printed = [[(''success'', PyBool False),
                     (''error'', PyStr ''Missing --input or --output'')]],
        exit_code = 1, dispatched = [], spawned = []\<rparr>
   \<and> not_str (input ((bare_args ''bake_textures'')\<lparr>output := Some ''maps''\<rparr>))
   \<and> main (machine (\<lambda>p. p = ''/usr/bin/blender'') Map.empty (Exits 2 0 ''done'' ''''))
        ((bare_args ''bake_textures'')\<lparr>output := Some ''maps''\<rparr>)
     = \<lparr>printed = [[(''success'', PyBool False),
                     (''error'', PyStr ''Missing --input or --output'')]],
        exit_code = 1, dispatched = [], spawned = []\<rparr>"
  using C10_stub_validation [of "(bare_args ''optimize'')\<lparr>input := Some ''in.obj'',
      output := Some ''out.obj''\<rparr>"
      "machine (\<lambda>p. p = ''/usr/bin/blender'') Map.empty (Exits 2 0 ''done'' '''')"]
    C10_stub_validation [of "(bare_args ''generate_lods'')\<lparr>input := Some ''in.obj''\<rparr>"
      "machine (\<lambda>p. p = ''/usr/bin/blender'') Map.empty (Exits 2 0 ''done'' '''')"]
    C10_stub_validation [of "(bare_args ''bake_textures'')\<lparr>output := Some ''maps''\<rparr>"
      "machine (\<lambda>p. p = ''/usr/bin/blender'') Map.empty (Exits 2 0 ''done'' '''')"]
  by (simp add: bare_args_def)

end
